theory Spec2Isabelle
  imports Main "HOL-Library.Word"
begin

section \<open>The C shims of swift-kernel-primitives\<close>

text \<open>
  The repository consists of two C headers, both called \<^verbatim>\<open>shim.h\<close>:
  \<^item> \<^verbatim>\<open>Sources/CDarwinShim/include/shim.h\<close> defines \<^verbatim>\<open>swift_shm_open\<close>,
    \<^verbatim>\<open>swift_fork\<close>, \<^verbatim>\<open>swift_RTLD_MAIN_ONLY\<close> and \<^verbatim>\<open>swift_RTLD_FIRST\<close> under
    \<^verbatim>\<open>#if defined(__APPLE__)\<close>;
  \<^item> \<^verbatim>\<open>Sources/CPosixShim/include/shim.h\<close> defines \<^verbatim>\<open>swift_RTLD_DEFAULT\<close> and
    \<^verbatim>\<open>swift_RTLD_NEXT\<close> under \<^verbatim>\<open>#if defined(__APPLE__) || defined(__linux__)\<close>.

  Every function is \<^verbatim>\<open>static inline\<close> and its body is one \<^verbatim>\<open>return\<close> statement.
  A C function runs in the state of its process, so each one is embedded as a
  state transformer \<open>'st \<Rightarrow> 'a \<times> 'st\<close>: the value returned and the state left behind.
\<close>

subsection \<open>C types\<close>

text \<open>
  \<^verbatim>\<open>int\<close>, \<^verbatim>\<open>pid_t\<close> and \<^verbatim>\<open>int32_t\<close> are 32-bit integers on the two platforms the
  headers compile on. \<^verbatim>\<open>mode_t\<close> is declared by \<^verbatim>\<open><sys/types.h>\<close>, which is not part
  of the repository: it is the type parameter \<open>'m\<close>, and a word \<open>'w word\<close> of
  unspecified width \<open>'w\<close> where a property depends on its being an unsigned
  integer type. \<^verbatim>\<open>void *\<close> is the type parameter \<open>'h\<close> and \<^verbatim>\<open>const char *\<close> the type
  parameter \<open>'p\<close>: the shims hand pointers on and never look behind them.
\<close>

type_synonym c_int = "32 word"
type_synonym pid_t = "32 word"
type_synonym int32_t = "32 word"

text \<open>
  The state of the calling process: \<^verbatim>\<open>errno\<close>, the process-wide error state, and
  everything else the operating system keeps for it (descriptors, shared-memory
  objects, processes), which the headers never inspect.
\<close>

record 'os process =
  errno :: c_int
  os :: 'os

text \<open>The C statement \<^verbatim>\<open>return e;\<close> for an expression \<open>e\<close> without effect.\<close>

definition c_return :: "'a \<Rightarrow> 'st \<Rightarrow> 'a \<times> 'st" where
  "c_return v s = (v, s)"

subsection \<open>What the system headers provide\<close>

text \<open>
  The primitives the shims forward to are declared by system headers
  (\<^verbatim>\<open><sys/mman.h>\<close>, \<^verbatim>\<open><unistd.h>\<close>, \<^verbatim>\<open><dlfcn.h>\<close>) and implemented by the operating
  system. They are parameters of the model: a record of the two functions, and a
  record of the macro constants of \<^verbatim>\<open><dlfcn.h>\<close>. Darwin's \<^verbatim>\<open><dlfcn.h>\<close> extends the
  POSIX one by \<^verbatim>\<open>RTLD_MAIN_ONLY\<close> and \<^verbatim>\<open>RTLD_FIRST\<close>.
\<close>

record ('p, 'm, 'st) libc =
  shm_open :: "'p \<Rightarrow> c_int \<Rightarrow> 'm \<Rightarrow> 'st \<Rightarrow> c_int \<times> 'st"
  fork :: "'st \<Rightarrow> pid_t \<times> 'st"

record 'h dlfcn =
  RTLD_DEFAULT :: 'h
  RTLD_NEXT :: 'h

record 'h darwin_dlfcn = "'h dlfcn" +
  RTLD_MAIN_ONLY :: 'h
  RTLD_FIRST :: c_int

subsection \<open>\<^verbatim>\<open>Sources/CDarwinShim/include/shim.h\<close>\<close>

text \<open>
  \<^verbatim>\<open>
  static inline int swift_shm_open(const char *name, int oflag, mode_t mode) {
      return shm_open(name, oflag, mode);
  }
  \<close>
\<close>

definition swift_shm_open ::
  "('p, 'm, 'st) libc \<Rightarrow> 'p \<Rightarrow> c_int \<Rightarrow> 'm \<Rightarrow> 'st \<Rightarrow> c_int \<times> 'st" where
  "swift_shm_open L name oflag mode = shm_open L name oflag mode"

text \<open>
  \<^verbatim>\<open>
  static inline pid_t swift_fork(void) {
      return fork();
  }
  \<close>
\<close>

definition swift_fork :: "('p, 'm, 'st) libc \<Rightarrow> 'st \<Rightarrow> pid_t \<times> 'st" where
  "swift_fork L = fork L"

text \<open>
  \<^verbatim>\<open>
  static inline void *swift_RTLD_MAIN_ONLY(void) {
      return RTLD_MAIN_ONLY;
  }
  static inline int32_t swift_RTLD_FIRST(void) {
      return RTLD_FIRST;
  }
  \<close>
\<close>

definition swift_RTLD_MAIN_ONLY :: "('h, 'x) darwin_dlfcn_scheme \<Rightarrow> 'st \<Rightarrow> 'h \<times> 'st" where
  "swift_RTLD_MAIN_ONLY D = c_return (RTLD_MAIN_ONLY D)"

definition swift_RTLD_FIRST :: "('h, 'x) darwin_dlfcn_scheme \<Rightarrow> 'st \<Rightarrow> int32_t \<times> 'st" where
  "swift_RTLD_FIRST D = c_return (RTLD_FIRST D)"

subsection \<open>\<^verbatim>\<open>Sources/CPosixShim/include/shim.h\<close>\<close>

text \<open>
  \<^verbatim>\<open>
  static inline void *swift_RTLD_DEFAULT(void) {
      return RTLD_DEFAULT;
  }
  static inline void *swift_RTLD_NEXT(void) {
      return RTLD_NEXT;
  }
  \<close>
\<close>

definition swift_RTLD_DEFAULT :: "('h, 'x) dlfcn_scheme \<Rightarrow> 'st \<Rightarrow> 'h \<times> 'st" where
  "swift_RTLD_DEFAULT D = c_return (RTLD_DEFAULT D)"

definition swift_RTLD_NEXT :: "('h, 'x) dlfcn_scheme \<Rightarrow> 'st \<Rightarrow> 'h \<times> 'st" where
  "swift_RTLD_NEXT D = c_return (RTLD_NEXT D)"

subsection \<open>Observing the calls a shim makes\<close>

text \<open>
  To say that a shim makes one call of the primitive and nothing else, the
  primitives are wrapped so that each call is appended to a log kept beside the
  state. \<open>traced L\<close> behaves as \<open>L\<close> and records each call with its arguments.
\<close>

datatype ('p, 'm) os_call = Shm_open_call 'p c_int 'm | Fork_call

definition traced ::
  "('p, 'm, 'st) libc \<Rightarrow> ('p, 'm, 'st \<times> ('p, 'm) os_call list) libc" where
  "traced L =
     \<lparr> shm_open = (\<lambda>name oflag mode (s, log).
         (fst (shm_open L name oflag mode s),
          (snd (shm_open L name oflag mode s), log @ [Shm_open_call name oflag mode]))),
       fork = (\<lambda>(s, log). (fst (fork L s), (snd (fork L s), log @ [Fork_call]))) \<rparr>"

subsection \<open>Calling a function again and again\<close>

text \<open>
  A caller that calls \<open>f\<close> \<open>n\<close> times in a row, each call in the state the call
  before left, and collects the values returned.
\<close>

fun repeat_call :: "nat \<Rightarrow> ('st \<Rightarrow> 'a \<times> 'st) \<Rightarrow> 'st \<Rightarrow> 'a list \<times> 'st" where
  "repeat_call 0 f s = ([], s)"
| "repeat_call (Suc n) f s =
     (fst (f s) # fst (repeat_call n f (snd (f s))), snd (repeat_call n f (snd (f s))))"

subsection \<open>Passing an integer for \<^verbatim>\<open>mode_t\<close>\<close>

text \<open>
  \<^verbatim>\<open>swift_shm_open\<close> has a prototype, so a C caller's integer argument is converted
  to the type of the parameter \<^verbatim>\<open>mode\<close> as if by assignment. \<^verbatim>\<open>mode_t\<close> is an
  unsigned integer type, and C converts to an unsigned type of width \<open>w\<close> by
  reducing modulo \<open>2 ^ w\<close>, which is what \<open>word_of_int\<close> does.
\<close>

definition mode_t_of_int :: "int \<Rightarrow> 'w::len word" where
  "mode_t_of_int v = word_of_int v"

subsection \<open>The sentinels of \<^verbatim>\<open><dlfcn.h>\<close> as the spec describes them\<close>

text \<open>
  Modelled from the spec: the values of the macros \<^verbatim>\<open>RTLD_DEFAULT\<close> and
  \<^verbatim>\<open>RTLD_NEXT\<close>, which the system header \<^verbatim>\<open><dlfcn.h>\<close> defines and the repository
  does not contain. The spec calls each an opaque handle value, a reserved
  constant signalling a special search scope rather than an ordinary address:
  \<^verbatim>\<open>RTLD_DEFAULT\<close> is the "search all normally-searched libraries" sentinel and
  \<^verbatim>\<open>RTLD_NEXT\<close> the "search libraries loaded after the current one" sentinel. A
  sentinel is modelled by the search scope it signals.
\<close>

datatype search_scope = All_normally_searched_libraries | Libraries_loaded_after_current

definition spec_dlfcn :: "search_scope dlfcn" where
  "spec_dlfcn =
     \<lparr> RTLD_DEFAULT = All_normally_searched_libraries,
       RTLD_NEXT = Libraries_loaded_after_current \<rparr>"

section \<open>The headers as the preprocessor sees them\<close>

text \<open>
  Which functions a translation unit gets depends on the conditional directives
  of the two headers. A header is a list of lines; a conditional holds the lines
  up to its \<^verbatim>\<open>#endif\<close>. Neither header has an \<^verbatim>\<open>#else\<close> or \<^verbatim>\<open>#elif\<close> branch.
\<close>

datatype pp_cond = Defined string | Or_cond pp_cond pp_cond

datatype pp_line =
    Define string
  | Include string
  | Static_inline string string "string list"
  | Ifndef string "pp_line list"
  | If_cond pp_cond "pp_line list"

text \<open>
  The state of a translation unit while it is preprocessed: the macros defined so
  far, the system headers included and the functions defined, in order.
\<close>

record translation_unit =
  macros :: "string set"
  included :: "string list"
  defined :: "string list"

fun holds :: "string set \<Rightarrow> pp_cond \<Rightarrow> bool" where
  "holds M (Defined m) = (m \<in> M)"
| "holds M (Or_cond a b) = (holds M a \<or> holds M b)"

text \<open>
  One line. \<^verbatim>\<open>#define\<close> adds a macro, a function definition adds its name, and a
  conditional is decided by the macros defined where it starts. The system headers
  are not part of the repository: an \<^verbatim>\<open>#include\<close> of one is recorded by name only.
\<close>

fun pp :: "pp_line \<Rightarrow> translation_unit \<Rightarrow> translation_unit" where
  "pp (Define m) u = u\<lparr>macros := insert m (macros u)\<rparr>"
| "pp (Include h) u = u\<lparr>included := included u @ [h]\<rparr>"
| "pp (Static_inline ret f params) u = u\<lparr>defined := defined u @ [f]\<rparr>"
| "pp (Ifndef m body) u = (if m \<in> macros u then u else fold pp body u)"
| "pp (If_cond c body) u = (if holds (macros u) c then fold pp body u else u)"

definition include_header :: "pp_line list \<Rightarrow> translation_unit \<Rightarrow> translation_unit" where
  "include_header h u = fold pp h u"

text \<open>A translation unit that starts with the macros \<open>M\<close> the compiler predefines.\<close>

definition fresh :: "string set \<Rightarrow> translation_unit" where
  "fresh M = \<lparr> macros = M, included = [], defined = [] \<rparr>"

text \<open>\<^verbatim>\<open>Sources/CDarwinShim/include/shim.h\<close>, lines 1 to 41.\<close>

definition CDarwinShim_cond :: pp_cond where
  "CDarwinShim_cond = Defined ''__APPLE__''"

definition CDarwinShim_h :: "pp_line list" where
  "CDarwinShim_h =
     [Ifndef ''CDARWIN_SHIM_H''
       [Define ''CDARWIN_SHIM_H'',
        If_cond CDarwinShim_cond
         [Include ''sys/mman.h'',
          Include ''sys/types.h'',
          Include ''fcntl.h'',
          Include ''unistd.h'',
          Include ''dlfcn.h'',
          Static_inline ''int'' ''swift_shm_open'' [''const char *'', ''int'', ''mode_t''],
          Static_inline ''pid_t'' ''swift_fork'' [],
          Static_inline ''void *'' ''swift_RTLD_MAIN_ONLY'' [],
          Static_inline ''int32_t'' ''swift_RTLD_FIRST'' []]]]"

text \<open>\<^verbatim>\<open>Sources/CPosixShim/include/shim.h\<close>, lines 1 to 22.\<close>

definition CPosixShim_cond :: pp_cond where
  "CPosixShim_cond = Or_cond (Defined ''__APPLE__'') (Defined ''__linux__'')"

definition CPosixShim_h :: "pp_line list" where
  "CPosixShim_h =
     [Ifndef ''CPOSIX_SHIM_H''
       [Define ''CPOSIX_SHIM_H'',
        If_cond CPosixShim_cond
         [Include ''dlfcn.h'',
          Static_inline ''void *'' ''swift_RTLD_DEFAULT'' [],
          Static_inline ''void *'' ''swift_RTLD_NEXT'' []]]]"

text \<open>
  A translation unit that includes both headers, as a program that uses both
  modules does, and one that includes them in the other order.
\<close>

definition both_headers :: "string set \<Rightarrow> translation_unit" where
  "both_headers M = include_header CDarwinShim_h (include_header CPosixShim_h (fresh M))"

definition both_headers_swapped :: "string set \<Rightarrow> translation_unit" where
  "both_headers_swapped M =
     include_header CPosixShim_h (include_header CDarwinShim_h (fresh M))"

section \<open>Forwarding\<close>

text \<open>
  C1. For every argument triple \<open>(name, oflag, mode)\<close> and every state of the
  process, \<open>swift_shm_open\<close> returns the value the direct call of \<open>shm_open\<close> with the
  same arguments returns and leaves the state (the error state with it) that the
  direct call leaves; \<open>swift_fork\<close> does the same for \<open>fork\<close>. With the calls of the
  primitives logged, each shim adds exactly one entry to the log, the call of its
  primitive with the arguments it was given: no validation, no transformation, no
  retry, no other effect.
\<close>

theorem swift_forwarding:
  "swift_shm_open L name oflag mode s = shm_open L name oflag mode s
   \<and> swift_fork L s = fork L s
   \<and> swift_shm_open (traced L) name oflag mode (s, log) =
       (fst (shm_open L name oflag mode s),
        (snd (shm_open L name oflag mode s), log @ [Shm_open_call name oflag mode]))
   \<and> swift_fork (traced L) (s, log) =
       (fst (fork L s), (snd (fork L s), log @ [Fork_call]))"
  by (simp add: swift_shm_open_def swift_fork_def traced_def)

text \<open>
  C5. \<open>swift_shm_open\<close> and \<open>swift_fork\<close> return the failure sentinel \<open>-1\<close> exactly
  when the primitive, called directly with the same arguments in the same state,
  returns \<open>-1\<close>, and the error state after the shim is the error state the
  primitive left: the shims add no error condition and never write \<^verbatim>\<open>errno\<close>
  themselves.
\<close>

theorem swift_failure_is_primitive_failure:
  "(fst (swift_shm_open L name oflag mode p) = - 1
      \<longleftrightarrow> fst (shm_open L name oflag mode p) = - 1)
   \<and> errno (snd (swift_shm_open L name oflag mode p))
       = errno (snd (shm_open L name oflag mode p))
   \<and> (fst (swift_fork L p) = - 1 \<longleftrightarrow> fst (fork L p) = - 1)
   \<and> errno (snd (swift_fork L p)) = errno (snd (fork L p))"
  by (simp add: swift_shm_open_def swift_fork_def)

lemma uint_mode_t_of_int: "uint (mode_t_of_int v :: 'w::len word) = v mod 2 ^ LENGTH('w)"
  by (simp add: mode_t_of_int_def uint_word_of_int)

lemma mode_t_of_int_mod:
  "(mode_t_of_int (v mod 2 ^ LENGTH('w)) :: 'w::len word) = mode_t_of_int v"
  by (simp add: mode_t_of_int_def word_eq_iff_unsigned [where ?'a = int] uint_word_of_int)

lemma mode_t_of_int_65920: "(mode_t_of_int 65920 :: 16 word) = 384"
  by (simp add: mode_t_of_int_def)

text \<open>
  C9. The parameter \<^verbatim>\<open>mode\<close> has the unsigned type \<^verbatim>\<open>mode_t\<close> of some width \<open>w\<close>
  (16 on Darwin). Whatever integer \<open>v\<close> a caller supplies, the mode that reaches
  \<open>shm_open\<close> is \<open>v mod 2 ^ w\<close>: a value out of range is wrapped, and the call is
  made all the same. At 16 bits, \<open>65536 + 0600\<close> (octal) reaches \<open>shm_open\<close> as
  \<open>0600\<close>, that is 384.
\<close>

theorem swift_shm_open_mode_wraps:
  "uint (mode_t_of_int v :: 'w::len word) = v mod 2 ^ LENGTH('w)
   \<and> swift_shm_open L name oflag (mode_t_of_int v :: 'w word) s
       = shm_open L name oflag (mode_t_of_int (v mod 2 ^ LENGTH('w))) s
   \<and> snd (snd (swift_shm_open (traced L) name oflag (mode_t_of_int v :: 'w word) (s, [])))
       = [Shm_open_call name oflag (mode_t_of_int (v mod 2 ^ LENGTH('w)))]
   \<and> swift_shm_open L' name oflag (mode_t_of_int 65920 :: 16 word) s'
       = shm_open L' name oflag 384 s'"
  by (simp add: swift_shm_open_def traced_def uint_mode_t_of_int mode_t_of_int_mod
      mode_t_of_int_65920)

section \<open>The accessors of the \<^verbatim>\<open><dlfcn.h>\<close> macros\<close>

lemma repeat_call_c_return: "repeat_call n (c_return v) s = (replicate n v, s)"
  by (induction n) (simp_all add: c_return_def)

text \<open>
  C2. In every state of the process, whatever calls came before, each of the four
  accessors returns the constant its macro stands for on the platform and leaves
  the state as it was; \<open>n\<close> calls in a row return that constant \<open>n\<close> times, and a
  call made after any other function \<open>g\<close> has run returns what a call made before
  it returns.
\<close>

theorem accessors_deterministic:
  "swift_RTLD_DEFAULT P s = (RTLD_DEFAULT P, s)
   \<and> swift_RTLD_NEXT P s = (RTLD_NEXT P, s)
   \<and> swift_RTLD_MAIN_ONLY D s = (RTLD_MAIN_ONLY D, s)
   \<and> swift_RTLD_FIRST D s = (RTLD_FIRST D, s)
   \<and> repeat_call n (swift_RTLD_DEFAULT P) s = (replicate n (RTLD_DEFAULT P), s)
   \<and> repeat_call n (swift_RTLD_NEXT P) s = (replicate n (RTLD_NEXT P), s)
   \<and> repeat_call n (swift_RTLD_MAIN_ONLY D) s = (replicate n (RTLD_MAIN_ONLY D), s)
   \<and> repeat_call n (swift_RTLD_FIRST D) s = (replicate n (RTLD_FIRST D), s)
   \<and> fst (swift_RTLD_DEFAULT P (snd (g s))) = fst (swift_RTLD_DEFAULT P s)
   \<and> fst (swift_RTLD_NEXT P (snd (g s))) = fst (swift_RTLD_NEXT P s)
   \<and> fst (swift_RTLD_MAIN_ONLY D (snd (g s))) = fst (swift_RTLD_MAIN_ONLY D s)
   \<and> fst (swift_RTLD_FIRST D (snd (g s))) = fst (swift_RTLD_FIRST D s)"
  unfolding swift_RTLD_DEFAULT_def swift_RTLD_NEXT_def swift_RTLD_MAIN_ONLY_def
    swift_RTLD_FIRST_def repeat_call_c_return
  by (simp add: c_return_def)

text \<open>
  C8. Each of the four accessors returns in every state (the functions are total)
  and hands back the state it was called in: \<^verbatim>\<open>errno\<close> keeps its value, the log of
  calls of the primitives gets no entry, and the value returned is the same
  whatever \<^verbatim>\<open>errno\<close> holds, so no value of an accessor reports an error.
\<close>

theorem accessors_cannot_fail:
  "snd (swift_RTLD_DEFAULT P s) = s
   \<and> snd (swift_RTLD_NEXT P s) = s
   \<and> snd (swift_RTLD_MAIN_ONLY D s) = s
   \<and> snd (swift_RTLD_FIRST D s) = s
   \<and> errno (snd (swift_RTLD_DEFAULT P p)) = errno p
   \<and> errno (snd (swift_RTLD_NEXT P p)) = errno p
   \<and> errno (snd (swift_RTLD_MAIN_ONLY D p)) = errno p
   \<and> errno (snd (swift_RTLD_FIRST D p)) = errno p
   \<and> fst (swift_RTLD_DEFAULT P (p\<lparr>errno := e\<rparr>)) = RTLD_DEFAULT P
   \<and> fst (swift_RTLD_NEXT P (p\<lparr>errno := e\<rparr>)) = RTLD_NEXT P
   \<and> fst (swift_RTLD_MAIN_ONLY D (p\<lparr>errno := e\<rparr>)) = RTLD_MAIN_ONLY D
   \<and> fst (swift_RTLD_FIRST D (p\<lparr>errno := e\<rparr>)) = RTLD_FIRST D
   \<and> snd (snd (swift_RTLD_DEFAULT P (t, log))) = (log :: ('n, 'm) os_call list)
   \<and> snd (snd (swift_RTLD_NEXT P (t, log))) = log
   \<and> snd (snd (swift_RTLD_MAIN_ONLY D (t, log))) = log
   \<and> snd (snd (swift_RTLD_FIRST D (t, log))) = log"
  by (simp add: swift_RTLD_DEFAULT_def swift_RTLD_NEXT_def swift_RTLD_MAIN_ONLY_def
      swift_RTLD_FIRST_def c_return_def)

text \<open>
  C6. With the sentinels as the spec describes them, \<open>swift_RTLD_DEFAULT\<close> and
  \<open>swift_RTLD_NEXT\<close> return values that differ, in whatever states the two calls are
  made. On every platform the two accessors return different values exactly when
  the platform's \<^verbatim>\<open>RTLD_DEFAULT\<close> and \<^verbatim>\<open>RTLD_NEXT\<close> are different, and each of the
  two returns the same value at every one of \<open>n\<close> calls in a row.
\<close>

theorem default_and_next_differ:
  "fst (swift_RTLD_DEFAULT spec_dlfcn s) \<noteq> fst (swift_RTLD_NEXT spec_dlfcn s')
   \<and> (fst (swift_RTLD_DEFAULT P s) \<noteq> fst (swift_RTLD_NEXT P s')
        \<longleftrightarrow> RTLD_DEFAULT P \<noteq> RTLD_NEXT P)
   \<and> fst (repeat_call n (swift_RTLD_DEFAULT P) s)
       = replicate n (fst (swift_RTLD_DEFAULT P s))
   \<and> fst (repeat_call n (swift_RTLD_NEXT P) s)
       = replicate n (fst (swift_RTLD_NEXT P s))"
  unfolding swift_RTLD_DEFAULT_def swift_RTLD_NEXT_def repeat_call_c_return
  by (simp add: c_return_def spec_dlfcn_def)

section \<open>Platform conditions and inclusion\<close>

lemmas header_defs =
  include_header_def CDarwinShim_h_def CPosixShim_h_def CDarwinShim_cond_def
  CPosixShim_cond_def fresh_def both_headers_def both_headers_swapped_def

text \<open>
  What the headers define where \<^verbatim>\<open>__linux__\<close> is predefined and \<^verbatim>\<open>__APPLE__\<close> is not,
  in a translation unit that has not seen them before: including both, in either
  order, defines \<open>swift_RTLD_DEFAULT\<close> and \<open>swift_RTLD_NEXT\<close> and nothing else; the
  Darwin header alone defines nothing and includes no system header. What becomes
  of a reference to a function that is not defined is decided by the compiler and
  the linker, not by the headers, and is not modelled.
\<close>

lemma linux_defines_posix_accessors_only:
  assumes "''__APPLE__'' \<notin> M" and "''__linux__'' \<in> M"
    and "''CDARWIN_SHIM_H'' \<notin> M" and "''CPOSIX_SHIM_H'' \<notin> M"
  shows "defined (both_headers M) = [''swift_RTLD_DEFAULT'', ''swift_RTLD_NEXT'']
    \<and> defined (both_headers_swapped M) = [''swift_RTLD_DEFAULT'', ''swift_RTLD_NEXT'']
    \<and> defined (include_header CDarwinShim_h (fresh M)) = []
    \<and> included (include_header CDarwinShim_h (fresh M)) = []"
  using assms by (simp add: header_defs)

lemma linux_defines_posix_accessors_only_example:
  "defined (both_headers {''__linux__''}) = [''swift_RTLD_DEFAULT'', ''swift_RTLD_NEXT'']
   \<and> defined (include_header CDarwinShim_h (fresh {''__linux__''})) = []"
  using linux_defines_posix_accessors_only [of "{''__linux__''}"] by simp

text \<open>
  C10. On Darwin (\<^verbatim>\<open>__APPLE__\<close> is predefined), in a translation unit that has not seen
  the headers before, including both headers in either order defines the six
  functions, each once: the names are pairwise distinct and each starts with
  \<open>swift_\<close>. The conditions of the two headers hold together exactly when
  \<^verbatim>\<open>__APPLE__\<close> is defined. Including a header a second time changes nothing,
  whatever the translation unit held before the first inclusion.
\<close>

theorem headers_compose:
  assumes "''__APPLE__'' \<in> M" and "''CDARWIN_SHIM_H'' \<notin> M" and "''CPOSIX_SHIM_H'' \<notin> M"
  shows "defined (both_headers M)
      = [''swift_RTLD_DEFAULT'', ''swift_RTLD_NEXT'', ''swift_shm_open'', ''swift_fork'',
         ''swift_RTLD_MAIN_ONLY'', ''swift_RTLD_FIRST'']
    \<and> defined (both_headers_swapped M)
      = [''swift_shm_open'', ''swift_fork'', ''swift_RTLD_MAIN_ONLY'', ''swift_RTLD_FIRST'',
         ''swift_RTLD_DEFAULT'', ''swift_RTLD_NEXT'']
    \<and> distinct (defined (both_headers M))
    \<and> distinct (defined (both_headers_swapped M))
    \<and> list_all (\<lambda>f. take 6 f = ''swift_'') (defined (both_headers M))
    \<and> (holds M' CDarwinShim_cond \<and> holds M' CPosixShim_cond \<longleftrightarrow> ''__APPLE__'' \<in> M')
    \<and> include_header CDarwinShim_h (include_header CDarwinShim_h u)
        = include_header CDarwinShim_h u
    \<and> include_header CPosixShim_h (include_header CPosixShim_h u)
        = include_header CPosixShim_h u"
  using assms by (simp add: header_defs) blast

theorem headers_compose_witness:
  "''__APPLE__'' \<in> {''__APPLE__''}
   \<and> ''CDARWIN_SHIM_H'' \<notin> {''__APPLE__''} \<and> ''CPOSIX_SHIM_H'' \<notin> {''__APPLE__''}
   \<and> defined (both_headers {''__APPLE__''})
      = [''swift_RTLD_DEFAULT'', ''swift_RTLD_NEXT'', ''swift_shm_open'', ''swift_fork'',
         ''swift_RTLD_MAIN_ONLY'', ''swift_RTLD_FIRST'']
   \<and> distinct (defined (both_headers {''__APPLE__''}))"
  using headers_compose [of "{''__APPLE__''}"] by simp

end
